theory Spec2Isabelle
  imports Complex_Main "HOL-Library.Multiset"
begin

section \<open>The engine core of \<open>packages/core/src/Engine.ts\<close>\<close>

text \<open>
  The class \<open>Engine\<close> is embedded as a record of its fields together with the state of
  the host environment it schedules itself on (the browser's table of pending
  animation-frame callbacks and of pending timeouts). Every method becomes a function
  from a state to a new state. A call into a collaborator whose code is outside
  \<open>Engine.ts\<close> (the components manager, the element pools, the feature managers, the
  cameras, the scene, the event dispatcher) is recorded, in call order and with its
  arguments, as an \<open>event\<close> appended to the field \<open>trace\<close>; such a call is taken not to
  call back into the engine. A JavaScript \<open>TypeError\<close> (a property read on \<open>null\<close>) is the
  value \<open>Inl TypeError\<close>.
\<close>

subsection \<open>Data\<close>

datatype error = TypeError

record entity =
  isActiveInHierarchy :: bool

text \<open>A camera is an object: \<open>camera_ref\<close> is its identity, the other fields are the
  properties \<open>_render\<close> reads.\<close>

record camera =
  camera_ref :: nat
  priority :: int
  enabled :: bool
  entity :: entity

record scene =
  scene_name :: string
  activeCameras :: "camera list"

record sceneManager =
  activeScene :: "scene option"

record shader =
  shaderId :: nat

text \<open>Modelled from the spec: the class \<open>Time\<close> (the spec's Clock) is imported from
  \<open>./base\<close> and is not part of the source. \<open>tick\<close> sets \<open>deltaTime\<close> to the wall time
  elapsed since the previous tick (or since \<open>reset\<close>) and accumulates \<open>elapsedTime\<close>;
  \<open>reset\<close> zeroes the elapsed accounting and takes a fresh reference point. The wall
  clock reading is the argument \<open>now\<close>.\<close>

record Time =
  deltaTime :: int
  elapsedTime :: int
  lastTickTime :: int

definition Time_new :: "int \<Rightarrow> Time" where
  "Time_new now = \<lparr>deltaTime = 0, elapsedTime = 0, lastTickTime = now\<rparr>"

definition tick :: "int \<Rightarrow> Time \<Rightarrow> Time" where
  "tick now t =
     \<lparr>deltaTime = now - lastTickTime t,
      elapsedTime = elapsedTime t + (now - lastTickTime t),
      lastTickTime = now\<rparr>"

definition reset :: "int \<Rightarrow> Time \<Rightarrow> Time" where
  "reset now t = t\<lparr>elapsedTime := 0, lastTickTime := now\<rparr>"

text \<open>The calls that leave \<open>Engine.ts\<close>, each named after the method called.\<close>

datatype event =
    Time_tick
  | Time_reset
  | RenderElementPool_resetPool
  | SpriteElementPool_resetPool
  | RenderElementPool_restPool
  | Feature_preLoad
  | Feature_preTick
  | Feature_postTick
  | Feature_shutdown
  | CallScriptOnStart
  | CallScriptOnUpdate int
  | CallAnimationUpdate int
  | CallScriptOnLateUpdate int
  | CallRendererOnUpdate int
  | CallComponentDestory
  | Scene_updateShaderData
  | CallCameraOnBeginRender camera
  | SceneFeature_preRender camera
  | Camera_render camera
  | SceneFeature_postRender camera
  | CallCameraOnEndRender camera
  | Logger_debug string
  | Trigger string
  | Scene_destroy
  | ResourceManager_gc
  | RemoveAllEventListeners

text \<open>
  The fields of \<open>Engine\<close> that the methods below read or write, then the host
  environment. A \<open>ShaderProgramPool\<close> instance is the number \<open>new\<close> gave it
  (\<open>pool_next\<close> counts the instances created so far); a hole of the sparse array
  \<open>_shaderProgramPools\<close> is \<open>None\<close>. \<open>requestId\<close> and \<open>timeoutId\<close> are \<open>None\<close> while the
  fields are still \<open>undefined\<close>. \<open>animate_fn\<close> is False once \<open>_animate\<close> is \<open>null\<close>.
  \<open>raf_pending\<close> holds the handles of the animation-frame callbacks requested and
  neither run nor cancelled yet, \<open>timeouts_pending\<close> the handles and delays of the
  timeouts; every one of them has \<open>_animate\<close> as its callback.
\<close>

record engine =
  shaderProgramPools :: "nat option list"
  pool_next :: nat
  canvas :: "nat option"
  resourceManager :: "nat option"
  sceneManager :: "sceneManager option"
  features :: "nat list"
  featureManager_objects :: "nat list"
  vSyncCount :: nat
  targetFrameRate :: real
  time :: "Time option"
  isPaused :: bool
  requestId :: "nat option"
  timeoutId :: "nat option"
  vSyncCounter :: nat
  targetFrameInterval :: real
  animate_fn :: bool
  raf_pending :: "nat list"
  raf_next :: nat
  timeouts_pending :: "(nat \<times> real) list"
  timeout_next :: nat
  trace :: "event list"

definition emit :: "event list \<Rightarrow> engine \<Rightarrow> engine" where
  "emit evs s = s\<lparr>trace := trace s @ evs\<rparr>"

text \<open>The state the field initialisers and the constructor leave: paused, one default
  scene without cameras, nothing scheduled. \<open>cv\<close> is the canvas.\<close>

definition Engine_new :: "nat \<Rightarrow> int \<Rightarrow> engine" where
  "Engine_new cv now =
     \<lparr>shaderProgramPools = [],
      pool_next = 0,
      canvas = Some cv,
      resourceManager = Some 0,
      sceneManager = Some \<lparr>activeScene = Some \<lparr>scene_name = ''DefaultScene'', activeCameras = []\<rparr>\<rparr>,
      features = [],
      featureManager_objects = [0],
      vSyncCount = 1,
      targetFrameRate = 60,
      time = Some (Time_new now),
      isPaused = True,
      requestId = None,
      timeoutId = None,
      vSyncCounter = 1,
      targetFrameInterval = 1000 / 60,
      animate_fn = True,
      raf_pending = [],
      raf_next = 1,
      timeouts_pending = [],
      timeout_next = 1,
      trace = []\<rparr>"

subsection \<open>JavaScript arrays with holes\<close>

text \<open>Reading past the end or reading a hole gives \<open>undefined\<close>; assigning \<open>length\<close>
  truncates or pads with holes; assigning past the end pads with holes first.\<close>

definition js_get :: "'a option list \<Rightarrow> nat \<Rightarrow> 'a option" where
  "js_get xs i = (if i < length xs then xs ! i else None)"

definition js_set_length :: "'a option list \<Rightarrow> nat \<Rightarrow> 'a option list" where
  "js_set_length xs n =
     (if n \<le> length xs then take n xs else xs @ replicate (n - length xs) None)"

definition js_set :: "'a option list \<Rightarrow> nat \<Rightarrow> 'a \<Rightarrow> 'a option list" where
  "js_set xs i v =
     (if i < length xs then xs[i := Some v]
      else xs @ replicate (i - length xs) None @ [Some v])"

subsection \<open>\<open>_getShaderProgramPool\<close>\<close>

definition getShaderProgramPool :: "shader \<Rightarrow> engine \<Rightarrow> nat \<times> engine" where
  "getShaderProgramPool sh s =
     (let index = shaderId sh;
          pools = shaderProgramPools s
      in case js_get pools index of
           Some pool \<Rightarrow> (pool, s)
         | None \<Rightarrow>
             (let len = index + 1;
                  pools = (if len < length pools then js_set_length pools len else pools);
                  pool = pool_next s
              in (pool,
                  s\<lparr>shaderProgramPools := js_set pools index pool,
                    pool_next := pool_next s + 1\<rparr>)))"

subsection \<open>The host environment\<close>

text \<open>\<open>requestAnimationFrame\<close> and \<open>setTimeout\<close> hand out a fresh handle and remember the
  callback; \<open>cancelAnimationFrame\<close> and \<open>clearTimeout\<close> forget the callback with the
  handle given, and do nothing for \<open>undefined\<close> or an unknown handle. Passing \<open>null\<close> as
  the callback of \<open>requestAnimationFrame\<close> is a \<open>TypeError\<close>.\<close>

definition requestAnimationFrame :: "engine \<Rightarrow> error + nat \<times> engine" where
  "requestAnimationFrame s =
     (if animate_fn s
      then Inr (raf_next s,
                s\<lparr>raf_pending := raf_pending s @ [raf_next s], raf_next := raf_next s + 1\<rparr>)
      else Inl TypeError)"

definition cancelAnimationFrame :: "nat option \<Rightarrow> engine \<Rightarrow> engine" where
  "cancelAnimationFrame h s =
     (case h of None \<Rightarrow> s
      | Some i \<Rightarrow> s\<lparr>raf_pending := filter (\<lambda>j. j \<noteq> i) (raf_pending s)\<rparr>)"

definition setTimeout :: "real \<Rightarrow> engine \<Rightarrow> nat \<times> engine" where
  "setTimeout delay s =
     (timeout_next s,
      s\<lparr>timeouts_pending := timeouts_pending s @ [(timeout_next s, delay)],
        timeout_next := timeout_next s + 1\<rparr>)"

definition clearTimeout :: "nat option \<Rightarrow> engine \<Rightarrow> engine" where
  "clearTimeout h s =
     (case h of None \<Rightarrow> s
      | Some i \<Rightarrow> s\<lparr>timeouts_pending := filter (\<lambda>p. fst p \<noteq> i) (timeouts_pending s)\<rparr>)"

subsection \<open>\<open>Array.prototype.sort\<close> with a comparator\<close>

text \<open>The sort of ECMAScript 2019 and later is stable. It is taken here as insertion
  sort: an element goes in front of the first element it does not compare greater
  than, so that elements comparing equal keep their order.\<close>

fun js_insert :: "('a \<Rightarrow> 'a \<Rightarrow> int) \<Rightarrow> 'a \<Rightarrow> 'a list \<Rightarrow> 'a list" where
  "js_insert cmp x [] = [x]"
| "js_insert cmp x (y # ys) =
     (if cmp x y \<le> 0 then x # y # ys else y # js_insert cmp x ys)"

definition js_sort :: "('a \<Rightarrow> 'a \<Rightarrow> int) \<Rightarrow> 'a list \<Rightarrow> 'a list" where
  "js_sort cmp xs = foldr (js_insert cmp) xs []"

subsection \<open>\<open>pause\<close> and \<open>resume\<close>\<close>

definition pause :: "engine \<Rightarrow> engine" where
  "pause s =
     (let s1 = s\<lparr>isPaused := True\<rparr>;
          s2 = cancelAnimationFrame (requestId s1) s1
      in clearTimeout (timeoutId s2) s2)"

definition resume :: "int \<Rightarrow> engine \<Rightarrow> error + engine" where
  "resume now s =
     (if \<not> isPaused s then Inr s
      else
        let s1 = s\<lparr>isPaused := False\<rparr>
        in case time s1 of
             None \<Rightarrow> Inl TypeError
           | Some t \<Rightarrow>
               (let s2 = emit [Time_reset] (s1\<lparr>time := Some (reset now t)\<rparr>)
                in case requestAnimationFrame s2 of
                     Inl e \<Rightarrow> Inl e
                   | Inr (h, s3) \<Rightarrow> Inr s3))"

subsection \<open>\<open>_render\<close>\<close>

text \<open>The body of the \<open>for\<close> loop over the sorted cameras, as the calls it makes.\<close>

fun render_cameras :: "camera list \<Rightarrow> event list" where
  "render_cameras [] = []"
| "render_cameras (camera # cameras) =
     (if enabled camera \<and> isActiveInHierarchy (entity camera)
      then [CallCameraOnBeginRender camera,
            SceneFeature_preRender camera,
            Camera_render camera,
            SceneFeature_postRender camera,
            CallCameraOnEndRender camera]
      else [])
     @ render_cameras cameras"

text \<open>\<open>_render\<close> sorts the array \<open>scene._activeCameras\<close> itself, so the scene comes back
  with the sorted array.\<close>

definition render :: "scene \<Rightarrow> engine \<Rightarrow> error + scene \<times> engine" where
  "render scn s =
     (let cameras = activeCameras scn
      in case time s of
           None \<Rightarrow> Inl TypeError
         | Some t \<Rightarrow>
             (let deltaTime = deltaTime t;
                  s1 = emit [CallRendererOnUpdate deltaTime, Scene_updateShaderData] s
              in if length cameras > 0
                 then
                   (let cameras = js_sort (\<lambda>camera1 camera2. priority camera1 - priority camera2) cameras
                    in Inr (scn\<lparr>activeCameras := cameras\<rparr>,
                            emit (render_cameras cameras @ [RenderElementPool_restPool]) s1))
                 else Inr (scn, emit [Logger_debug ''NO active camera.''] s1)))"

subsection \<open>\<open>update\<close>\<close>

definition update :: "int \<Rightarrow> engine \<Rightarrow> error + engine" where
  "update now s =
     (case time s of
        None \<Rightarrow> Inl TypeError
      | Some t \<Rightarrow>
          (let deltaTime = deltaTime t;
               s1 = emit [Time_tick, RenderElementPool_resetPool, SpriteElementPool_resetPool]
                      (s\<lparr>time := Some (tick now t)\<rparr>)
           in case sceneManager s1 of
                None \<Rightarrow> Inl TypeError
              | Some sm \<Rightarrow>
                  (let s2 = emit [Feature_preTick] s1
                   in case (case activeScene sm of
                              None \<Rightarrow> Inr s2
                            | Some scn \<Rightarrow>
                                (let s3 = emit [CallScriptOnStart,
                                                CallScriptOnUpdate deltaTime,
                                                CallAnimationUpdate deltaTime,
                                                CallScriptOnLateUpdate deltaTime] s2
                                 in case render scn s3 of
                                      Inl e \<Rightarrow> Inl e
                                    | Inr (scn', s4) \<Rightarrow>
                                        Inr (s4\<lparr>sceneManager := Some (sm\<lparr>activeScene := Some scn'\<rparr>)\<rparr>)))
                      of Inl e \<Rightarrow> Inl e
                       | Inr s5 \<Rightarrow> Inr (emit [CallComponentDestory, Feature_postTick] s5))))"

subsection \<open>\<open>_animate\<close> and the signals that call it\<close>

definition animate :: "int \<Rightarrow> engine \<Rightarrow> error + engine" where
  "animate now s =
     (if vSyncCount s \<noteq> 0 then
        (case requestAnimationFrame s of
           Inl e \<Rightarrow> Inl e
         | Inr (h, s0) \<Rightarrow>
             (let s1 = s0\<lparr>requestId := Some h\<rparr>;
                  counter = vSyncCounter s1;
                  s2 = s1\<lparr>vSyncCounter := counter + 1\<rparr>
              in if counter mod vSyncCount s2 = 0
                 then (case update now s2 of
                         Inl e \<Rightarrow> Inl e
                       | Inr s3 \<Rightarrow> Inr (s3\<lparr>vSyncCounter := 1\<rparr>))
                 else Inr s2))
      else
        (case setTimeout (targetFrameInterval s) s of
           (h, s0) \<Rightarrow> update now (s0\<lparr>timeoutId := Some h\<rparr>)))"

text \<open>A display refresh runs the callbacks pending at that moment, once each and in the
  order they were requested; a callback requested meanwhile waits for the next
  refresh. A timeout that fires runs its callback once. \<open>now\<close> is the wall clock at the
  signal.\<close>

fun run_callbacks :: "nat list \<Rightarrow> int \<Rightarrow> engine \<Rightarrow> error + engine" where
  "run_callbacks [] now s = Inr s"
| "run_callbacks (h # hs) now s =
     (case animate now s of Inl e \<Rightarrow> Inl e | Inr s' \<Rightarrow> run_callbacks hs now s')"

definition refresh_signal :: "int \<Rightarrow> engine \<Rightarrow> error + engine" where
  "refresh_signal now s = run_callbacks (raf_pending s) now (s\<lparr>raf_pending := []\<rparr>)"

fun refresh_signals :: "int list \<Rightarrow> engine \<Rightarrow> error + engine" where
  "refresh_signals [] s = Inr s"
| "refresh_signals (now # nows) s =
     (case refresh_signal now s of Inl e \<Rightarrow> Inl e | Inr s' \<Rightarrow> refresh_signals nows s')"

definition timer_fire :: "nat \<Rightarrow> int \<Rightarrow> engine \<Rightarrow> error + engine" where
  "timer_fire h now s =
     (if h \<in> fst ` set (timeouts_pending s)
      then animate now (s\<lparr>timeouts_pending := filter (\<lambda>p. fst p \<noteq> h) (timeouts_pending s)\<rparr>)
      else Inr s)"

subsection \<open>\<open>run\<close> and \<open>destroy\<close>\<close>

definition run :: "int \<Rightarrow> engine \<Rightarrow> error + engine" where
  "run now s =
     (case resume now (emit [Feature_preLoad] s) of
        Inl e \<Rightarrow> Inl e
      | Inr s' \<Rightarrow> Inr (emit [Trigger ''run''] s'))"

definition destroy :: "engine \<Rightarrow> error + engine" where
  "destroy s =
     (case sceneManager s of
        None \<Rightarrow> Inr s
      | Some sm \<Rightarrow>
          (let s1 = emit [Trigger ''shutdown'', Feature_shutdown] s;
               s2 = pause s1;
               s3 = s2\<lparr>animate_fn := False\<rparr>
           in case activeScene sm of
                None \<Rightarrow> Inl TypeError
              | Some scn \<Rightarrow>
                  (let s4 = emit [Scene_destroy] s3
                   in case resourceManager s4 of
                        None \<Rightarrow> Inl TypeError
                      | Some rm \<Rightarrow>
                          (let s5 = emit [ResourceManager_gc, CallComponentDestory] s4;
                               s6 = s5\<lparr>sceneManager := None,
                                       resourceManager := None,
                                       canvas := None,
                                       features := [],
                                       time := None,
                                       featureManager_objects := []\<rparr>
                           in Inr (emit [RemoveAllEventListeners] s6)))))"

text \<open>What a step added to the trace, the frames run so far, and the cameras whose
  \<open>render\<close> was called, in call order.\<close>

definition events_since :: "engine \<Rightarrow> engine \<Rightarrow> event list" where
  "events_since s s' = drop (length (trace s)) (trace s')"

definition frame_count :: "engine \<Rightarrow> nat" where
  "frame_count s = length (filter (\<lambda>e. e = Time_tick) (trace s))"

fun camera_of :: "event \<Rightarrow> camera option" where
  "camera_of (CallCameraOnBeginRender c) = Some c"
| "camera_of (SceneFeature_preRender c) = Some c"
| "camera_of (Camera_render c) = Some c"
| "camera_of (SceneFeature_postRender c) = Some c"
| "camera_of (CallCameraOnEndRender c) = Some c"
| "camera_of _ = None"

fun rendered_cameras :: "event list \<Rightarrow> camera list" where
  "rendered_cameras [] = []"
| "rendered_cameras (Camera_render c # evs) = c # rendered_cameras evs"
| "rendered_cameras (_ # evs) = rendered_cameras evs"

text \<open>The running states that have exactly one animation-frame callback armed: not
  paused, \<open>vSyncCount = n > 0\<close>, not destroyed, and the counter at least 1 (it starts at
  1 and is only incremented or set back to 1). A running state may have more callbacks
  armed; it is then not one of these.\<close>

definition running_vsync :: "nat \<Rightarrow> engine \<Rightarrow> bool" where
  "running_vsync n s \<longleftrightarrow>
     \<not> isPaused s \<and> vSyncCount s = n \<and> 0 < n \<and> animate_fn s \<and>
     time s \<noteq> None \<and> sceneManager s \<noteq> None \<and>
     length (raf_pending s) = 1 \<and> 1 \<le> vSyncCounter s"

subsection \<open>Example data\<close>

definition camera_new :: "nat \<Rightarrow> int \<Rightarrow> bool \<Rightarrow> bool \<Rightarrow> camera" where
  "camera_new r p en act =
     \<lparr>camera_ref = r, priority = p, enabled = en, entity = \<lparr>isActiveInHierarchy = act\<rparr>\<rparr>"

definition scene_312 :: scene where
  "scene_312 =
     \<lparr>scene_name = ''Main'',
      activeCameras = [camera_new 1 3 True True, camera_new 2 1 True True, camera_new 3 2 True True]\<rparr>"

definition scene_mixed :: scene where
  "scene_mixed =
     \<lparr>scene_name = ''Main'',
      activeCameras = [camera_new 1 2 True True, camera_new 2 1 False True,
                       camera_new 3 1 True False]\<rparr>"

section \<open>Auxiliary facts\<close>

subsection \<open>The sort and the camera loop\<close>

lemma js_insert_priority:
  "js_insert (\<lambda>camera1 camera2. priority camera1 - priority camera2) x ys = insort_key priority x ys"
  by (induction ys) auto

lemma js_sort_priority:
  "js_sort (\<lambda>camera1 camera2. priority camera1 - priority camera2) xs = sort_key priority xs"
  unfolding js_sort_def sort_key_def
  by (induction xs) (auto simp: js_insert_priority)

lemma js_sort_312:
  "js_sort (\<lambda>camera1 camera2. priority camera1 - priority camera2) (activeCameras scene_312) =
     [camera_new 2 1 True True, camera_new 3 2 True True, camera_new 1 3 True True]"
  by (simp add: js_sort_def scene_312_def camera_new_def)

lemma rendered_cameras_append:
  "rendered_cameras (xs @ ys) = rendered_cameras xs @ rendered_cameras ys"
  by (induction xs rule: rendered_cameras.induct) auto

lemma rendered_cameras_render_cameras:
  "rendered_cameras (render_cameras cs) = filter (\<lambda>c. enabled c \<and> isActiveInHierarchy (entity c)) cs"
  by (induction cs) (auto simp: rendered_cameras_append)

lemma camera_of_render_cameras:
  "e \<in> set (render_cameras cs) \<Longrightarrow> camera_of e = Some c \<Longrightarrow> enabled c \<and> isActiveInHierarchy (entity c)"
  by (induction cs) (auto split: if_splits)

lemma no_tick_render_cameras: "filter (\<lambda>e. e = Time_tick) (render_cameras cs) = []"
  by (induction cs) auto

lemma events_since_emit [simp]: "events_since s (emit evs s) = evs"
  by (simp add: events_since_def emit_def)

lemma render_result:
  "render scn s = Inr (scn', s') \<Longrightarrow>
   \<exists>t. time s = Some t \<and>
     scn' = (if activeCameras scn = [] then scn
             else scn\<lparr>activeCameras := sort_key priority (activeCameras scn)\<rparr>) \<and>
     s' = emit ([CallRendererOnUpdate (deltaTime t), Scene_updateShaderData] @
                (if activeCameras scn = [] then [Logger_debug ''NO active camera.'']
                 else render_cameras (sort_key priority (activeCameras scn)) @ [RenderElementPool_restPool])) s"
  by (auto simp: render_def Let_def emit_def js_sort_priority split: option.splits if_splits)

lemma render_ok:
  "time s = Some t \<Longrightarrow> \<exists>scn' s'. render scn s = Inr (scn', s')"
  by (auto simp: render_def Let_def)

lemma render_events:
  assumes "render scn s = Inr (scn', s')"
  shows "rendered_cameras (events_since s s') =
         filter (\<lambda>c. enabled c \<and> isActiveInHierarchy (entity c)) (sort_key priority (activeCameras scn))"
proof -
  from render_result [OF assms] obtain t :: Time where
    s': "s' = emit ([CallRendererOnUpdate (deltaTime t), Scene_updateShaderData] @
                (if activeCameras scn = [] then [Logger_debug ''NO active camera.'']
                 else render_cameras (sort_key priority (activeCameras scn)) @ [RenderElementPool_restPool])) s"
    by blast
  show ?thesis
    by (cases "activeCameras scn = []")
       (simp_all add: s' rendered_cameras_append rendered_cameras_render_cameras)
qed

lemma render_cameras_after:
  assumes "render scn s = Inr (scn', s')"
  shows "activeCameras scn' = sort_key priority (activeCameras scn)"
  using render_result [OF assms] by (auto split: if_splits)

subsection \<open>One frame\<close>

lemma update_result:
  assumes "update now s = Inr s'"
  shows "\<exists>(t::Time) sm. time s = Some t \<and> sceneManager s = Some sm \<and>
     s' = (case activeScene sm of
             None \<Rightarrow>
               s\<lparr>time := Some (tick now t),
                 trace := trace s @ [Time_tick, RenderElementPool_resetPool, SpriteElementPool_resetPool,
                                     Feature_preTick, CallComponentDestory, Feature_postTick]\<rparr>
           | Some scn \<Rightarrow>
               s\<lparr>time := Some (tick now t),
                 sceneManager := Some (sm\<lparr>activeScene := Some
                    (if activeCameras scn = [] then scn
                     else scn\<lparr>activeCameras := sort_key priority (activeCameras scn)\<rparr>)\<rparr>),
                 trace := trace s @ [Time_tick, RenderElementPool_resetPool, SpriteElementPool_resetPool,
                                     Feature_preTick, CallScriptOnStart,
                                     CallScriptOnUpdate (deltaTime t),
                                     CallAnimationUpdate (deltaTime t),
                                     CallScriptOnLateUpdate (deltaTime t),
                                     CallRendererOnUpdate (deltaTime (tick now t)),
                                     Scene_updateShaderData] @
                                    (if activeCameras scn = [] then [Logger_debug ''NO active camera.'']
                                     else render_cameras (sort_key priority (activeCameras scn)) @
                                          [RenderElementPool_restPool]) @
                                    [CallComponentDestory, Feature_postTick]\<rparr>)"
  using assms
  by (auto simp: update_def render_def Let_def emit_def js_sort_priority
           split: option.splits if_splits sum.splits)

lemma update_ok:
  "time s = Some t \<Longrightarrow> sceneManager s = Some sm \<Longrightarrow> \<exists>s'. update now s = Inr s'"
  by (auto simp: update_def render_def Let_def emit_def split: option.splits)

lemma update_ok_scene:
  assumes "time s = Some t" and "sceneManager s = Some sm" and "activeScene sm = Some scn"
    and "activeCameras scn \<noteq> []"
  shows "\<exists>s'. update now s = Inr s' \<and>
           sceneManager s' = Some (sm\<lparr>activeScene := Some (scn\<lparr>activeCameras :=
             js_sort (\<lambda>camera1 camera2. priority camera1 - priority camera2) (activeCameras scn)\<rparr>)\<rparr>)"
  using assms by (simp add: update_def render_def Let_def emit_def)

lemma update_scheduler:
  assumes "update now s = Inr s'"
  shows "isPaused s' = isPaused s \<and> vSyncCount s' = vSyncCount s \<and>
         vSyncCounter s' = vSyncCounter s \<and> animate_fn s' = animate_fn s \<and>
         raf_pending s' = raf_pending s \<and> raf_next s' = raf_next s \<and>
         requestId s' = requestId s \<and>
         time s' \<noteq> None \<and> sceneManager s' \<noteq> None \<and>
         frame_count s' = Suc (frame_count s)"
proof -
  from update_result [OF assms] obtain t :: Time and sm where
    "time s = Some t" "sceneManager s = Some sm" and
    s': "s' = (case activeScene sm of
             None \<Rightarrow>
               s\<lparr>time := Some (tick now t),
                 trace := trace s @ [Time_tick, RenderElementPool_resetPool, SpriteElementPool_resetPool,
                                     Feature_preTick, CallComponentDestory, Feature_postTick]\<rparr>
           | Some scn \<Rightarrow>
               s\<lparr>time := Some (tick now t),
                 sceneManager := Some (sm\<lparr>activeScene := Some
                    (if activeCameras scn = [] then scn
                     else scn\<lparr>activeCameras := sort_key priority (activeCameras scn)\<rparr>)\<rparr>),
                 trace := trace s @ [Time_tick, RenderElementPool_resetPool, SpriteElementPool_resetPool,
                                     Feature_preTick, CallScriptOnStart,
                                     CallScriptOnUpdate (deltaTime t),
                                     CallAnimationUpdate (deltaTime t),
                                     CallScriptOnLateUpdate (deltaTime t),
                                     CallRendererOnUpdate (deltaTime (tick now t)),
                                     Scene_updateShaderData] @
                                    (if activeCameras scn = [] then [Logger_debug ''NO active camera.'']
                                     else render_cameras (sort_key priority (activeCameras scn)) @
                                          [RenderElementPool_restPool]) @
                                    [CallComponentDestory, Feature_postTick]\<rparr>)"
    by blast
  show ?thesis
    unfolding s' using \<open>sceneManager s = Some sm\<close>
    by (cases "activeScene sm") (simp_all add: frame_count_def no_tick_render_cameras)
qed

subsection \<open>The refresh-driven pacing\<close>

lemma animate_vsync:
  assumes "vSyncCount s = n" "0 < n" "animate_fn s" "time s \<noteq> None" "sceneManager s \<noteq> None"
    and "raf_pending s = []"
  shows "\<exists>s'. animate now s = Inr s' \<and>
           isPaused s' = isPaused s \<and> vSyncCount s' = n \<and> animate_fn s' \<and>
           time s' \<noteq> None \<and> sceneManager s' \<noteq> None \<and>
           raf_pending s' = [raf_next s] \<and>
           vSyncCounter s' = (if n dvd vSyncCounter s then 1 else Suc (vSyncCounter s)) \<and>
           frame_count s' = frame_count s + (if n dvd vSyncCounter s then 1 else 0)"
proof (cases "n dvd vSyncCounter s")
  case True
  let ?s2 = "s\<lparr>raf_pending := [raf_next s], raf_next := raf_next s + 1,
               requestId := Some (raf_next s), vSyncCounter := vSyncCounter s + 1\<rparr>"
  from assms obtain t sm where "time ?s2 = Some t" "sceneManager ?s2 = Some sm" by auto
  from update_ok [OF this] obtain s3 where u: "update now ?s2 = Inr s3" by blast
  from update_scheduler [OF u] have f: "isPaused s3 = isPaused s" "vSyncCount s3 = vSyncCount s"
    "animate_fn s3 = animate_fn s" "raf_pending s3 = [raf_next s]"
    "time s3 \<noteq> None" "sceneManager s3 \<noteq> None" "frame_count s3 = Suc (frame_count ?s2)" by simp_all
  have "animate now s = Inr (s3\<lparr>vSyncCounter := 1\<rparr>)"
    using assms True u by (simp add: animate_def requestAnimationFrame_def Let_def dvd_eq_mod_eq_0)
  then show ?thesis using f assms True by (simp add: frame_count_def)
next
  case False
  then have "vSyncCounter s mod n \<noteq> 0" by (simp add: dvd_eq_mod_eq_0)
  then show ?thesis
    using assms False by (simp add: animate_def requestAnimationFrame_def Let_def frame_count_def)
qed

lemma refresh_signal_vsync:
  assumes "running_vsync n s"
  shows "\<exists>s'. refresh_signal now s = Inr s' \<and> running_vsync n s' \<and>
           vSyncCounter s' = (if n dvd vSyncCounter s then 1 else Suc (vSyncCounter s)) \<and>
           frame_count s' = frame_count s + (if n dvd vSyncCounter s then 1 else 0)"
proof -
  from assms obtain h where h: "raf_pending s = [h]"
    by (cases "raf_pending s") (auto simp: running_vsync_def)
  let ?s0 = "s\<lparr>raf_pending := []\<rparr>"
  have "vSyncCount ?s0 = n" "0 < n" "animate_fn ?s0" "time ?s0 \<noteq> None" "sceneManager ?s0 \<noteq> None"
    "raf_pending ?s0 = []"
    using assms by (simp_all add: running_vsync_def)
  from animate_vsync [OF this, of now] obtain s' where
    a: "animate now ?s0 = Inr s'" and
    p: "isPaused s' = isPaused ?s0" "vSyncCount s' = n" "animate_fn s'"
       "time s' \<noteq> None" "sceneManager s' \<noteq> None" "raf_pending s' = [raf_next ?s0]"
       "vSyncCounter s' = (if n dvd vSyncCounter ?s0 then 1 else Suc (vSyncCounter ?s0))"
       "frame_count s' = frame_count ?s0 + (if n dvd vSyncCounter ?s0 then 1 else 0)"
    by blast
  have "refresh_signal now s = Inr s'"
    by (simp add: refresh_signal_def h a)
  moreover have "running_vsync n s'"
    using p assms by (auto simp: running_vsync_def)
  ultimately show ?thesis using p by (simp add: frame_count_def)
qed

text \<open>One step of the counter, as arithmetic.\<close>

lemma counter_step_mod:
  assumes "0 < (n::nat)"
  shows "(if n dvd c then 1 else Suc c) mod n = Suc c mod n"
proof (cases "n dvd c")
  case True
  then have "Suc c mod n = 1 mod n" by (metis Suc_eq_plus1 dvd_eq_mod_eq_0 mod_add_left_eq add_0)
  with True show ?thesis by simp
next
  case False
  then show ?thesis by simp
qed

lemma counter_step_div:
  assumes "0 < (n::nat)" and "1 \<le> c"
  shows "(if n dvd c then 1 else 0) + (((if n dvd c then 1 else Suc c) - 1) mod n + k) div n =
         ((c - 1) mod n + Suc k) div n"
proof (cases "n dvd c")
  case True
  then have "Suc (c - 1) mod n = 0" using assms by (simp add: dvd_eq_mod_eq_0)
  then have "Suc ((c - 1) mod n) = n" using assms mod_Suc [of "c - 1" n]
    by (simp split: if_splits)
  then have "(c - 1) mod n + Suc k = k + n" by simp
  then have "((c - 1) mod n + Suc k) div n = (k + n) div n" by (rule arg_cong)
  also have "\<dots> = Suc (k div n)" using assms by (simp add: div_add_self2)
  finally have e: "((c - 1) mod n + Suc k) div n = Suc (k div n)" .
  have "(if n dvd c then 1 else 0) + (((if n dvd c then 1 else Suc c) - 1) mod n + k) div n
        = 1 + ((1 - 1) mod n + k) div n" using True by (simp only: if_True)
  also have "\<dots> = Suc (k div n)" by simp
  finally show ?thesis unfolding e .
next
  case False
  then have "Suc (c - 1) mod n \<noteq> 0" using assms by (simp add: dvd_eq_mod_eq_0)
  then have "c mod n = Suc ((c - 1) mod n)" using assms mod_Suc [of "c - 1" n]
    by (simp split: if_splits)
  then show ?thesis using False by simp
qed

lemma refresh_signals_vsync:
  assumes "running_vsync n s"
  shows "\<exists>s'. refresh_signals nows s = Inr s' \<and> running_vsync n s' \<and>
           vSyncCounter s' mod n = (vSyncCounter s + length nows) mod n \<and>
           frame_count s' = frame_count s + ((vSyncCounter s - 1) mod n + length nows) div n"
  using assms
proof (induction nows arbitrary: s)
  case Nil
  then show ?case by (auto simp: running_vsync_def)
next
  case (Cons now nows)
  from refresh_signal_vsync [OF Cons.prems, of now] obtain s1 where
    r: "refresh_signal now s = Inr s1" and i: "running_vsync n s1" and
    c: "vSyncCounter s1 = (if n dvd vSyncCounter s then 1 else Suc (vSyncCounter s))" and
    f: "frame_count s1 = frame_count s + (if n dvd vSyncCounter s then 1 else 0)"
    by blast
  from Cons.IH [OF i] obtain s' where
    rs: "refresh_signals nows s1 = Inr s'" and i': "running_vsync n s'" and
    c': "vSyncCounter s' mod n = (vSyncCounter s1 + length nows) mod n" and
    f': "frame_count s' = frame_count s1 + ((vSyncCounter s1 - 1) mod n + length nows) div n"
    by blast
  have bounds: "0 < n" "1 \<le> vSyncCounter s"
    using Cons.prems by (simp_all add: running_vsync_def)
  have "refresh_signals (now # nows) s = Inr s'"
    by (simp add: r rs)
  moreover have "vSyncCounter s' mod n = (vSyncCounter s + length (now # nows)) mod n"
  proof -
    have "(vSyncCounter s1 + length nows) mod n = (vSyncCounter s1 mod n + length nows) mod n"
      by (simp add: mod_add_left_eq)
    also have "vSyncCounter s1 mod n = Suc (vSyncCounter s) mod n"
      unfolding c by (rule counter_step_mod [OF bounds(1)])
    also have "(Suc (vSyncCounter s) mod n + length nows) mod n =
               (vSyncCounter s + length (now # nows)) mod n"
      by (simp add: mod_add_left_eq)
    finally show ?thesis using c' by simp
  qed
  moreover have "frame_count s' =
      frame_count s + ((vSyncCounter s - 1) mod n + length (now # nows)) div n"
    using counter_step_div [OF bounds, of "length nows"] f f' c by simp
  ultimately show ?case using i' by blast
qed

text \<open>With exactly one callback armed, the handler runs once per refresh and the counter
  gates the frames: after the refreshes \<open>nows\<close> from a counter \<open>c\<close> the engine has run
  \<open>((c - 1) mod n + length nows) div n\<close> frames, and the refresh that follows runs one
  frame if \<open>n\<close> divides \<open>c + length nows\<close> and none otherwise.\<close>

lemma vsync_gating_one_callback:
  assumes "running_vsync n s"
  shows "\<exists>s'. refresh_signals nows s = Inr s' \<and> running_vsync n s' \<and>
           frame_count s' = frame_count s + ((vSyncCounter s - 1) mod n + length nows) div n \<and>
           (\<exists>s''. refresh_signal now s' = Inr s'' \<and>
              frame_count s'' =
                frame_count s' + (if n dvd (vSyncCounter s + length nows) then 1 else 0))"
proof -
  from refresh_signals_vsync [OF assms, of nows] obtain s' where
    rs: "refresh_signals nows s = Inr s'" and i: "running_vsync n s'" and
    c: "vSyncCounter s' mod n = (vSyncCounter s + length nows) mod n" and
    f: "frame_count s' = frame_count s + ((vSyncCounter s - 1) mod n + length nows) div n"
    by blast
  from refresh_signal_vsync [OF i, of now] obtain s'' where
    r: "refresh_signal now s' = Inr s''" and
    f': "frame_count s'' = frame_count s' + (if n dvd vSyncCounter s' then 1 else 0)"
    by blast
  have "n dvd vSyncCounter s' \<longleftrightarrow> n dvd (vSyncCounter s + length nows)"
    using c by (simp add: dvd_eq_mod_eq_0)
  with rs i f r f' show ?thesis by auto
qed

lemma vsync_gating_one_callback_example:
  "resume 0 ((Engine_new 0 0)\<lparr>vSyncCount := 3\<rparr>) =
     Inr ((Engine_new 0 0)\<lparr>vSyncCount := 3, time := Some (reset 0 (Time_new 0)), isPaused := False,
                            raf_pending := [1], raf_next := 2, trace := [Time_reset]\<rparr>) \<and>
   running_vsync 3
     ((Engine_new 0 0)\<lparr>vSyncCount := 3, time := Some (reset 0 (Time_new 0)), isPaused := False,
                       raf_pending := [1], raf_next := 2, trace := [Time_reset]\<rparr>) \<and>
   (\<exists>s'. refresh_signals [16, 32]
           ((Engine_new 0 0)\<lparr>vSyncCount := 3, time := Some (reset 0 (Time_new 0)), isPaused := False,
                             raf_pending := [1], raf_next := 2, trace := [Time_reset]\<rparr>) = Inr s' \<and>
         frame_count s' = 0 \<and>
         (\<exists>s''. refresh_signal 48 s' = Inr s'' \<and> frame_count s'' = 1))"
proof -
  let ?S = "(Engine_new 0 0)\<lparr>vSyncCount := 3, time := Some (reset 0 (Time_new 0)), isPaused := False,
                             raf_pending := [1], raf_next := 2, trace := [Time_reset]\<rparr>"
  have r0: "resume 0 ((Engine_new 0 0)\<lparr>vSyncCount := 3\<rparr>) = Inr ?S"
    by (simp add: resume_def requestAnimationFrame_def Engine_new_def emit_def Let_def)
  have h: "running_vsync 3 ?S"
    by (simp add: running_vsync_def Engine_new_def)
  have v: "vSyncCounter ?S = 1" "frame_count ?S = 0"
    by (simp_all add: Engine_new_def frame_count_def)
  from vsync_gating_one_callback [OF h, of "[16, 32]" 48] obtain s' s'' where
    rs: "refresh_signals [16, 32] ?S = Inr s'" and
    f: "frame_count s' = 0 + ((1 - 1) mod 3 + length [16::int, 32]) div 3" and
    r: "refresh_signal 48 s' = Inr s''" and
    f': "frame_count s'' = frame_count s' + (if 3 dvd (1 + length [16::int, 32]) then 1 else 0)"
    unfolding v by blast
  have z: "frame_count s' = 0" using f by simp
  have "(3::nat) dvd (1 + length [16::int, 32])" by (simp add: numeral_3_eq_3)
  then have "frame_count s'' = 1" using f' z by (simp only: if_True)
  with z r0 h rs r show ?thesis by blast
qed

section \<open>The claims\<close>

subsection \<open>The shader program pools\<close>

text \<open>
  Claim C1. After \<open>_getShaderProgramPool\<close> has been called for shader identifier \<open>i\<close> and
  then for a smaller identifier \<open>j\<close>, the pool created at index \<open>i\<close> should still be in
  the registry and a later call for \<open>i\<close> should return that same instance. The source
  does otherwise: the first call for a lower, empty index assigns \<open>index + 1\<close> to the
  array's length whenever that is less than the current length. On a new engine, the
  call for identifier 5 creates instance 0 at index 5; the call for identifier 2 cuts the
  array to length 3, which removes instance 0, and stores instance 1; the next call for
  identifier 5 finds the slot empty and creates instance 2.
\<close>

theorem getShaderProgramPool_drops_pool:
  "getShaderProgramPool \<lparr>shaderId = 5\<rparr> (Engine_new 0 0) =
     (0, (Engine_new 0 0)\<lparr>shaderProgramPools := [None, None, None, None, None, Some 0],
                           pool_next := 1\<rparr>) \<and>
   getShaderProgramPool \<lparr>shaderId = 2\<rparr>
     ((Engine_new 0 0)\<lparr>shaderProgramPools := [None, None, None, None, None, Some 0],
                       pool_next := 1\<rparr>) =
     (1, (Engine_new 0 0)\<lparr>shaderProgramPools := [None, None, Some 1], pool_next := 2\<rparr>) \<and>
   getShaderProgramPool \<lparr>shaderId = 5\<rparr>
     ((Engine_new 0 0)\<lparr>shaderProgramPools := [None, None, Some 1], pool_next := 2\<rparr>) =
     (2, (Engine_new 0 0)\<lparr>shaderProgramPools := [None, None, Some 1, None, None, Some 2],
                           pool_next := 3\<rparr>)"
  by (simp add: getShaderProgramPool_def js_get_def js_set_def js_set_length_def Engine_new_def
        Let_def numeral_eq_Suc)

subsection \<open>The frame\<close>

text \<open>
  Claim C2. Every \<open>update\<close> should advance the clock first and hand the \<open>deltaTime\<close> of
  that advance, the time elapsed in the current frame, to the lifecycle callbacks of the
  same frame. The source does otherwise: \<open>update\<close> reads \<open>time.deltaTime\<close> into a local
  before it calls \<open>time.tick()\<close>, so the callbacks receive the value the clock held
  before the advance, which is the elapsed time of the previous frame; \<open>_render\<close>, called
  later in the same frame, reads the clock again and passes the new value to the
  renderer update. On a new engine created at wall time 0, the frame at wall time 16
  advances the clock to \<open>deltaTime = 16\<close> and calls the update, animation-update and
  late-update callbacks with 0 and the renderer update with 16; the next frame, at wall
  time 50, advances the clock to \<open>deltaTime = 34\<close> and calls the three callbacks with 16
  and the renderer update with 34.
\<close>

theorem update_passes_stale_deltaTime:
  "update 16 (Engine_new 0 0) =
     Inr ((Engine_new 0 0)
            \<lparr>time := Some \<lparr>deltaTime = 16, elapsedTime = 16, lastTickTime = 16\<rparr>,
             trace := [Time_tick, RenderElementPool_resetPool, SpriteElementPool_resetPool,
                       Feature_preTick, CallScriptOnStart, CallScriptOnUpdate 0,
                       CallAnimationUpdate 0, CallScriptOnLateUpdate 0,
                       CallRendererOnUpdate 16, Scene_updateShaderData,
                       Logger_debug ''NO active camera.'', CallComponentDestory,
                       Feature_postTick]\<rparr>) \<and>
   update 50 ((Engine_new 0 0)
            \<lparr>time := Some \<lparr>deltaTime = 16, elapsedTime = 16, lastTickTime = 16\<rparr>,
             trace := [Time_tick, RenderElementPool_resetPool, SpriteElementPool_resetPool,
                       Feature_preTick, CallScriptOnStart, CallScriptOnUpdate 0,
                       CallAnimationUpdate 0, CallScriptOnLateUpdate 0,
                       CallRendererOnUpdate 16, Scene_updateShaderData,
                       Logger_debug ''NO active camera.'', CallComponentDestory,
                       Feature_postTick]\<rparr>) =
     Inr ((Engine_new 0 0)
            \<lparr>time := Some \<lparr>deltaTime = 34, elapsedTime = 50, lastTickTime = 50\<rparr>,
             trace := [Time_tick, RenderElementPool_resetPool, SpriteElementPool_resetPool,
                       Feature_preTick, CallScriptOnStart, CallScriptOnUpdate 0,
                       CallAnimationUpdate 0, CallScriptOnLateUpdate 0,
                       CallRendererOnUpdate 16, Scene_updateShaderData,
                       Logger_debug ''NO active camera.'', CallComponentDestory,
                       Feature_postTick,
                       Time_tick, RenderElementPool_resetPool, SpriteElementPool_resetPool,
                       Feature_preTick, CallScriptOnStart, CallScriptOnUpdate 16,
                       CallAnimationUpdate 16, CallScriptOnLateUpdate 16,
                       CallRendererOnUpdate 34, Scene_updateShaderData,
                       Logger_debug ''NO active camera.'', CallComponentDestory,
                       Feature_postTick]\<rparr>)"
  by (simp add: update_def render_def emit_def Let_def Engine_new_def Time_new_def tick_def)

text \<open>
  Claim C8. In every \<open>update\<close> whose active scene is \<open>null\<close>, none of the start, update,
  animation-update and late-update callbacks runs and there is no render pass, while the
  clock tick, the two pool resets, the pre-tick hook, the deferred component-destroy
  sweep and the post-tick hook run, in that order: these six calls are all the frame
  does, and the clock is the only field that changes.
\<close>

theorem update_without_scene:
  assumes "time s = Some t" and "sceneManager s = Some sm" and "activeScene sm = None"
  shows "update now s =
         Inr (s\<lparr>time := Some (tick now t),
                trace := trace s @ [Time_tick, RenderElementPool_resetPool, SpriteElementPool_resetPool,
                                    Feature_preTick, CallComponentDestory, Feature_postTick]\<rparr>)"
  using assms by (simp add: update_def Let_def emit_def)

theorem update_without_scene_witness:
  "time ((Engine_new 0 0)\<lparr>sceneManager := Some \<lparr>activeScene = None\<rparr>\<rparr>) = Some (Time_new 0) \<and>
   sceneManager ((Engine_new 0 0)\<lparr>sceneManager := Some \<lparr>activeScene = None\<rparr>\<rparr>) =
     Some \<lparr>activeScene = None\<rparr> \<and>
   activeScene \<lparr>activeScene = None\<rparr> = None \<and>
   update 16 ((Engine_new 0 0)\<lparr>sceneManager := Some \<lparr>activeScene = None\<rparr>\<rparr>) =
     Inr ((Engine_new 0 0)
            \<lparr>sceneManager := Some \<lparr>activeScene = None\<rparr>,
             time := Some \<lparr>deltaTime = 16, elapsedTime = 16, lastTickTime = 16\<rparr>,
             trace := [Time_tick, RenderElementPool_resetPool, SpriteElementPool_resetPool,
                       Feature_preTick, CallComponentDestory, Feature_postTick]\<rparr>)"
proof -
  have h: "time ((Engine_new 0 0)\<lparr>sceneManager := Some \<lparr>activeScene = None\<rparr>\<rparr>) = Some (Time_new 0)"
    "sceneManager ((Engine_new 0 0)\<lparr>sceneManager := Some \<lparr>activeScene = None\<rparr>\<rparr>) =
       Some \<lparr>activeScene = None\<rparr>"
    "activeScene \<lparr>activeScene = None\<rparr> = None"
    by (simp_all add: Engine_new_def)
  from update_without_scene [OF h, of 16] h show ?thesis
    by (simp add: Engine_new_def Time_new_def tick_def)
qed

subsection \<open>The scheduler\<close>

text \<open>
  Claim C3. Once \<open>pause\<close> has been called and \<open>resume\<close> is not called again, no further
  frame should run, whatever wake-up was armed before, the one armed by the latest
  \<open>resume\<close> included. The source does otherwise: \<open>resume\<close> requests an animation frame
  without storing the handle in \<open>_requestId\<close>, so the \<open>pause\<close> that follows cancels nothing,
  and \<open>_animate\<close> does not look at \<open>_isPaused\<close>. On a new engine, \<open>resume\<close> then \<open>pause\<close>
  leaves the callback with handle 1 pending; three display refreshes later the engine
  is still paused, has run three frames and has the next callback armed.
\<close>

theorem pause_leaves_resume_wakeup:
  "resume 0 (Engine_new 0 0) =
     Inr ((Engine_new 0 0)\<lparr>isPaused := False, time := Some (reset 0 (Time_new 0)),
                            raf_pending := [1], raf_next := 2, trace := [Time_reset]\<rparr>) \<and>
   pause ((Engine_new 0 0)\<lparr>isPaused := False, time := Some (reset 0 (Time_new 0)),
                           raf_pending := [1], raf_next := 2, trace := [Time_reset]\<rparr>) =
     (Engine_new 0 0)\<lparr>isPaused := True, time := Some (reset 0 (Time_new 0)),
                       raf_pending := [1], raf_next := 2, trace := [Time_reset]\<rparr> \<and>
   map_sum id (\<lambda>s. (isPaused s, frame_count s, raf_pending s))
     (refresh_signals [16, 32, 48]
        ((Engine_new 0 0)\<lparr>isPaused := True, time := Some (reset 0 (Time_new 0)),
                            raf_pending := [1], raf_next := 2, trace := [Time_reset]\<rparr>)) =
     Inr (True, 3, [4])"
  by (simp add: resume_def pause_def requestAnimationFrame_def cancelAnimationFrame_def
        clearTimeout_def Engine_new_def emit_def Let_def refresh_signal_def animate_def update_def
        render_def frame_count_def Time_new_def tick_def reset_def)

text \<open>
  Claim C4. For every \<open>vSyncCount = n \<ge> 1\<close> and every sequence of display refreshes, a
  running engine should run a frame on exactly one of every \<open>n\<close> consecutive refreshes
  and on no other. The source does otherwise once two callbacks are armed, which
  \<open>resume\<close>, \<open>pause\<close>, \<open>resume\<close> brings about: the first \<open>resume\<close> does not store its
  handle, \<open>pause\<close> cancels nothing, and the second \<open>resume\<close> arms a second callback, so
  that every refresh calls \<open>_animate\<close> twice and the counter advances twice. On a new
  engine (\<open>vSyncCount = 1\<close>) brought to that running state, one refresh runs two frames;
  with \<open>vSyncCount\<close> then set to 2, three refreshes run three frames, one on every
  refresh.
\<close>

theorem resume_pause_resume_doubles_frames:
  "resume 0 (Engine_new 0 0) =
     Inr ((Engine_new 0 0)\<lparr>isPaused := False, time := Some (reset 0 (Time_new 0)),
                            raf_pending := [1], raf_next := 2, trace := [Time_reset]\<rparr>) \<and>
   pause ((Engine_new 0 0)\<lparr>isPaused := False, time := Some (reset 0 (Time_new 0)),
                           raf_pending := [1], raf_next := 2, trace := [Time_reset]\<rparr>) =
     (Engine_new 0 0)\<lparr>isPaused := True, time := Some (reset 0 (Time_new 0)),
                       raf_pending := [1], raf_next := 2, trace := [Time_reset]\<rparr> \<and>
   resume 5 ((Engine_new 0 0)\<lparr>isPaused := True, time := Some (reset 0 (Time_new 0)),
                              raf_pending := [1], raf_next := 2, trace := [Time_reset]\<rparr>) =
     Inr ((Engine_new 0 0)\<lparr>isPaused := False, time := Some (reset 5 (Time_new 0)),
                            raf_pending := [1, 2], raf_next := 3,
                            trace := [Time_reset, Time_reset]\<rparr>) \<and>
   map_sum id (\<lambda>s. (isPaused s, vSyncCount s, frame_count s))
     (refresh_signals [16]
        ((Engine_new 0 0)\<lparr>isPaused := False, time := Some (reset 5 (Time_new 0)),
                          raf_pending := [1, 2], raf_next := 3,
                          trace := [Time_reset, Time_reset]\<rparr>)) =
     Inr (False, 1, 2) \<and>
   map_sum id (\<lambda>s. (isPaused s, vSyncCount s, frame_count s))
     (refresh_signals [16, 32, 48]
        ((Engine_new 0 0)\<lparr>isPaused := False, time := Some (reset 5 (Time_new 0)),
                          raf_pending := [1, 2], raf_next := 3,
                          trace := [Time_reset, Time_reset], vSyncCount := 2\<rparr>)) =
     Inr (False, 2, 3)"
  by (simp add: resume_def pause_def requestAnimationFrame_def cancelAnimationFrame_def
        clearTimeout_def Engine_new_def emit_def Let_def refresh_signal_def animate_def update_def
        render_def frame_count_def Time_new_def tick_def reset_def)



subsection \<open>The render pass\<close>

text \<open>
  Claim C5. The render pass renders the cameras in ascending order of \<open>priority\<close>, and
  cameras of equal priority keep their relative order: for every priority, the cameras
  of that priority are rendered in the order the scene's list had them, and a second
  pass over the list the first pass left renders the same cameras in the same order and
  leaves the list as it is. Cameras with priorities 3, 1, 2 are rendered in the order
  1, 2, 3.
\<close>

theorem render_order_by_priority:
  assumes "render scn s = Inr (scn', s')"
  shows "sorted (map priority (rendered_cameras (events_since s s'))) \<and>
         (\<forall>p. filter (\<lambda>c. priority c = p) (rendered_cameras (events_since s s')) =
              filter (\<lambda>c. priority c = p)
                (filter (\<lambda>c. enabled c \<and> isActiveInHierarchy (entity c)) (activeCameras scn))) \<and>
         (\<forall>s2 scn2 s2'. render scn' s2 = Inr (scn2, s2') \<longrightarrow>
              scn2 = scn' \<and>
              rendered_cameras (events_since s2 s2') = rendered_cameras (events_since s s'))"
proof (intro conjI allI impI)
  let ?vis = "\<lambda>c. enabled c \<and> isActiveInHierarchy (entity c)"
  have ev: "rendered_cameras (events_since s s') = filter ?vis (sort_key priority (activeCameras scn))"
    by (rule render_events [OF assms])
  show "sorted (map priority (rendered_cameras (events_since s s')))"
    unfolding ev by (simp add: sorted_filter)
  show "filter (\<lambda>c. priority c = p) (rendered_cameras (events_since s s')) =
        filter (\<lambda>c. priority c = p) (filter ?vis (activeCameras scn))" for p
  proof -
    have "filter (\<lambda>c. priority c = p) (filter ?vis (sort_key priority (activeCameras scn))) =
          filter ?vis (filter (\<lambda>c. priority c = p) (sort_key priority (activeCameras scn)))"
      by (simp add: conj_commute)
    also have "\<dots> = filter ?vis (filter (\<lambda>c. priority c = p) (activeCameras scn))"
      by (simp only: sort_key_stable)
    also have "\<dots> = filter (\<lambda>c. priority c = p) (filter ?vis (activeCameras scn))"
      by (simp add: conj_commute)
    finally show ?thesis unfolding ev .
  qed
  fix s2 scn2 s2'
  assume again: "render scn' s2 = Inr (scn2, s2')"
  have cams: "activeCameras scn' = sort_key priority (activeCameras scn)"
    by (rule render_cameras_after [OF assms])
  have idem: "sort_key priority (activeCameras scn') = activeCameras scn'"
    unfolding cams by (rule sort_key_id_if_sorted) simp
  show "scn2 = scn'"
    using render_result [OF again] idem by (auto split: if_splits)
  show "rendered_cameras (events_since s2 s2') = rendered_cameras (events_since s s')"
    using idem by (simp add: render_events [OF again] ev cams)
qed

theorem render_order_by_priority_witness:
  "render scene_312 (Engine_new 0 0) =
     Inr ((scene_312\<lparr>activeCameras :=
            [camera_new 2 1 True True, camera_new 3 2 True True, camera_new 1 3 True True]\<rparr>),
          (emit ([CallRendererOnUpdate 0, Scene_updateShaderData] @
            render_cameras [camera_new 2 1 True True, camera_new 3 2 True True, camera_new 1 3 True True] @
            [RenderElementPool_restPool]) (Engine_new 0 0))) \<and>
   map priority (rendered_cameras (events_since (Engine_new 0 0)
     (emit ([CallRendererOnUpdate 0, Scene_updateShaderData] @
            render_cameras [camera_new 2 1 True True, camera_new 3 2 True True, camera_new 1 3 True True] @
            [RenderElementPool_restPool]) (Engine_new 0 0)))) = [1, 2, 3] \<and>
   sorted (map priority (rendered_cameras (events_since (Engine_new 0 0)
     (emit ([CallRendererOnUpdate 0, Scene_updateShaderData] @
            render_cameras [camera_new 2 1 True True, camera_new 3 2 True True, camera_new 1 3 True True] @
            [RenderElementPool_restPool]) (Engine_new 0 0))))) \<and>
   render (scene_312\<lparr>activeCameras :=
            [camera_new 2 1 True True, camera_new 3 2 True True, camera_new 1 3 True True]\<rparr>)
     (emit ([CallRendererOnUpdate 0, Scene_updateShaderData] @
            render_cameras [camera_new 2 1 True True, camera_new 3 2 True True, camera_new 1 3 True True] @
            [RenderElementPool_restPool]) (Engine_new 0 0)) =
     Inr ((scene_312\<lparr>activeCameras :=
            [camera_new 2 1 True True, camera_new 3 2 True True, camera_new 1 3 True True]\<rparr>),
          (emit ([CallRendererOnUpdate 0, Scene_updateShaderData] @
            render_cameras [camera_new 2 1 True True, camera_new 3 2 True True, camera_new 1 3 True True] @
            [RenderElementPool_restPool])
       (emit ([CallRendererOnUpdate 0, Scene_updateShaderData] @
            render_cameras [camera_new 2 1 True True, camera_new 3 2 True True, camera_new 1 3 True True] @
            [RenderElementPool_restPool]) (Engine_new 0 0)))) \<and>
   rendered_cameras (events_since (emit ([CallRendererOnUpdate 0, Scene_updateShaderData] @
            render_cameras [camera_new 2 1 True True, camera_new 3 2 True True, camera_new 1 3 True True] @
            [RenderElementPool_restPool]) (Engine_new 0 0))
     (emit ([CallRendererOnUpdate 0, Scene_updateShaderData] @
            render_cameras [camera_new 2 1 True True, camera_new 3 2 True True, camera_new 1 3 True True] @
            [RenderElementPool_restPool])
       (emit ([CallRendererOnUpdate 0, Scene_updateShaderData] @
            render_cameras [camera_new 2 1 True True, camera_new 3 2 True True, camera_new 1 3 True True] @
            [RenderElementPool_restPool]) (Engine_new 0 0)))) =
   rendered_cameras (events_since (Engine_new 0 0)
     (emit ([CallRendererOnUpdate 0, Scene_updateShaderData] @
            render_cameras [camera_new 2 1 True True, camera_new 3 2 True True, camera_new 1 3 True True] @
            [RenderElementPool_restPool]) (Engine_new 0 0)))"
proof -
  have r: "render scene_312 (Engine_new 0 0) =
     Inr ((scene_312\<lparr>activeCameras :=
            [camera_new 2 1 True True, camera_new 3 2 True True, camera_new 1 3 True True]\<rparr>),
          (emit ([CallRendererOnUpdate 0, Scene_updateShaderData] @
            render_cameras [camera_new 2 1 True True, camera_new 3 2 True True, camera_new 1 3 True True] @
            [RenderElementPool_restPool]) (Engine_new 0 0)))"
    by (simp add: render_def Let_def js_sort_def emit_def scene_312_def camera_new_def
          Engine_new_def Time_new_def)
  have r2: "render (scene_312\<lparr>activeCameras :=
            [camera_new 2 1 True True, camera_new 3 2 True True, camera_new 1 3 True True]\<rparr>)
     (emit ([CallRendererOnUpdate 0, Scene_updateShaderData] @
            render_cameras [camera_new 2 1 True True, camera_new 3 2 True True, camera_new 1 3 True True] @
            [RenderElementPool_restPool]) (Engine_new 0 0)) =
     Inr ((scene_312\<lparr>activeCameras :=
            [camera_new 2 1 True True, camera_new 3 2 True True, camera_new 1 3 True True]\<rparr>),
          (emit ([CallRendererOnUpdate 0, Scene_updateShaderData] @
            render_cameras [camera_new 2 1 True True, camera_new 3 2 True True, camera_new 1 3 True True] @
            [RenderElementPool_restPool])
       (emit ([CallRendererOnUpdate 0, Scene_updateShaderData] @
            render_cameras [camera_new 2 1 True True, camera_new 3 2 True True, camera_new 1 3 True True] @
            [RenderElementPool_restPool]) (Engine_new 0 0))))"
    by (simp add: render_def Let_def js_sort_def emit_def scene_312_def camera_new_def
          Engine_new_def Time_new_def)
  have m: "map priority (rendered_cameras (events_since (Engine_new 0 0)
     (emit ([CallRendererOnUpdate 0, Scene_updateShaderData] @
            render_cameras [camera_new 2 1 True True, camera_new 3 2 True True, camera_new 1 3 True True] @
            [RenderElementPool_restPool]) (Engine_new 0 0)))) = [1, 2, 3]"
    by (simp add: camera_new_def)
  from render_order_by_priority [OF r] r r2 m show ?thesis by blast
qed

text \<open>
  Claim C6. In every render pass, a camera whose \<open>enabled\<close> is false or whose entity's
  \<open>isActiveInHierarchy\<close> is false gets no begin-render hook, no pre-render or post-render
  feature hook, no \<open>render\<close> call and no end-render hook: no call of the pass has that
  camera as its argument.
\<close>

theorem render_skips_disabled_cameras:
  assumes "render scn s = Inr (scn', s')"
    and "\<not> enabled c \<or> \<not> isActiveInHierarchy (entity c)"
  shows "\<forall>e \<in> set (events_since s s'). camera_of e \<noteq> Some c"
proof
  fix e assume e: "e \<in> set (events_since s s')"
  from render_result [OF assms(1)] obtain t :: Time where
    s': "s' = emit ([CallRendererOnUpdate (deltaTime t), Scene_updateShaderData] @
                (if activeCameras scn = [] then [Logger_debug ''NO active camera.'']
                 else render_cameras (sort_key priority (activeCameras scn)) @ [RenderElementPool_restPool])) s"
    by blast
  show "camera_of e \<noteq> Some c"
  proof
    assume c: "camera_of e = Some c"
    from e c have "e \<in> set (render_cameras (sort_key priority (activeCameras scn)))"
      unfolding s' by (auto split: if_splits)
    from camera_of_render_cameras [OF this c] assms(2) show False by blast
  qed
qed

theorem render_skips_disabled_cameras_witness:
  "render scene_mixed (Engine_new 0 0) =
     Inr (scene_mixed\<lparr>activeCameras :=
            [camera_new 2 1 False True, camera_new 3 1 True False, camera_new 1 2 True True]\<rparr>,
          emit [CallRendererOnUpdate 0, Scene_updateShaderData,
                CallCameraOnBeginRender (camera_new 1 2 True True),
                SceneFeature_preRender (camera_new 1 2 True True),
                Camera_render (camera_new 1 2 True True),
                SceneFeature_postRender (camera_new 1 2 True True),
                CallCameraOnEndRender (camera_new 1 2 True True),
                RenderElementPool_restPool] (Engine_new 0 0)) \<and>
   \<not> enabled (camera_new 2 1 False True) \<and>
   \<not> isActiveInHierarchy (entity (camera_new 3 1 True False)) \<and>
   Some (camera_new 2 1 False True) \<notin> camera_of ` set
     (events_since (Engine_new 0 0)
       (emit [CallRendererOnUpdate 0, Scene_updateShaderData,
              CallCameraOnBeginRender (camera_new 1 2 True True),
              SceneFeature_preRender (camera_new 1 2 True True),
              Camera_render (camera_new 1 2 True True),
              SceneFeature_postRender (camera_new 1 2 True True),
              CallCameraOnEndRender (camera_new 1 2 True True),
              RenderElementPool_restPool] (Engine_new 0 0))) \<and>
   Some (camera_new 3 1 True False) \<notin> camera_of ` set
     (events_since (Engine_new 0 0)
       (emit [CallRendererOnUpdate 0, Scene_updateShaderData,
              CallCameraOnBeginRender (camera_new 1 2 True True),
              SceneFeature_preRender (camera_new 1 2 True True),
              Camera_render (camera_new 1 2 True True),
              SceneFeature_postRender (camera_new 1 2 True True),
              CallCameraOnEndRender (camera_new 1 2 True True),
              RenderElementPool_restPool] (Engine_new 0 0)))"
proof -
  have r: "render scene_mixed (Engine_new 0 0) =
     Inr (scene_mixed\<lparr>activeCameras :=
            [camera_new 2 1 False True, camera_new 3 1 True False, camera_new 1 2 True True]\<rparr>,
          emit [CallRendererOnUpdate 0, Scene_updateShaderData,
                CallCameraOnBeginRender (camera_new 1 2 True True),
                SceneFeature_preRender (camera_new 1 2 True True),
                Camera_render (camera_new 1 2 True True),
                SceneFeature_postRender (camera_new 1 2 True True),
                CallCameraOnEndRender (camera_new 1 2 True True),
                RenderElementPool_restPool] (Engine_new 0 0))"
    by (simp add: render_def Let_def js_sort_def emit_def scene_mixed_def camera_new_def
          Engine_new_def Time_new_def)
  have d: "\<not> enabled (camera_new 2 1 False True)"
    "\<not> isActiveInHierarchy (entity (camera_new 3 1 True False))"
    by (simp_all add: camera_new_def)
  from d have d2: "\<not> enabled (camera_new 2 1 False True) \<or>
                   \<not> isActiveInHierarchy (entity (camera_new 2 1 False True))"
    and d3: "\<not> enabled (camera_new 3 1 True False) \<or>
             \<not> isActiveInHierarchy (entity (camera_new 3 1 True False))"
    by blast+
  from render_skips_disabled_cameras [OF r d2] render_skips_disabled_cameras [OF r d3] r d
  show ?thesis by (blast intro: sym)
qed

text \<open>
  Claim C10. A render pass over a non-empty camera list sorts the scene's own
  \<open>_activeCameras\<close> array: the scene the pass leaves is the scene it was given with the
  camera list replaced by the same cameras in ascending order of priority, every other
  part of the scene unchanged; and after the whole frame the engine's active scene
  still holds the sorted list.
\<close>

theorem render_sorts_cameras_in_place:
  assumes "time s = Some t" and "sceneManager s = Some sm" and "activeScene sm = Some scn"
    and "activeCameras scn \<noteq> []"
  shows "(\<exists>s'. render scn s =
            Inr (scn\<lparr>activeCameras :=
                   js_sort (\<lambda>camera1 camera2. priority camera1 - priority camera2) (activeCameras scn)\<rparr>, s')) \<and>
         (\<exists>s'. update now s = Inr s' \<and>
            sceneManager s' = Some (sm\<lparr>activeScene := Some (scn\<lparr>activeCameras :=
              js_sort (\<lambda>camera1 camera2. priority camera1 - priority camera2) (activeCameras scn)\<rparr>)\<rparr>)) \<and>
         sorted (map priority
           (js_sort (\<lambda>camera1 camera2. priority camera1 - priority camera2) (activeCameras scn))) \<and>
         mset (js_sort (\<lambda>camera1 camera2. priority camera1 - priority camera2) (activeCameras scn)) =
           mset (activeCameras scn)"
proof (intro conjI)
  show "\<exists>s'. render scn s =
            Inr (scn\<lparr>activeCameras :=
                   js_sort (\<lambda>camera1 camera2. priority camera1 - priority camera2) (activeCameras scn)\<rparr>, s')"
    using assms(1,4) by (simp add: render_def Let_def)
  show "\<exists>s'. update now s = Inr s' \<and>
            sceneManager s' = Some (sm\<lparr>activeScene := Some (scn\<lparr>activeCameras :=
              js_sort (\<lambda>camera1 camera2. priority camera1 - priority camera2) (activeCameras scn)\<rparr>)\<rparr>)"
    by (rule update_ok_scene [OF assms])
  show "sorted (map priority
           (js_sort (\<lambda>camera1 camera2. priority camera1 - priority camera2) (activeCameras scn)))"
    by (simp add: js_sort_priority)
  show "mset (js_sort (\<lambda>camera1 camera2. priority camera1 - priority camera2) (activeCameras scn)) =
           mset (activeCameras scn)"
    by (simp add: js_sort_priority)
qed

theorem render_sorts_cameras_in_place_witness:
  "time (Engine_new 0 0) = Some (Time_new 0) \<and>
   sceneManager ((Engine_new 0 0)\<lparr>sceneManager := Some \<lparr>activeScene = Some scene_312\<rparr>\<rparr>) =
     Some \<lparr>activeScene = Some scene_312\<rparr> \<and>
   activeCameras scene_312 \<noteq> [] \<and>
   (\<exists>s'. update 16 ((Engine_new 0 0)\<lparr>sceneManager := Some \<lparr>activeScene = Some scene_312\<rparr>\<rparr>) = Inr s' \<and>
      sceneManager s' = Some \<lparr>activeScene = Some (scene_312\<lparr>activeCameras :=
        [camera_new 2 1 True True, camera_new 3 2 True True, camera_new 1 3 True True]\<rparr>)\<rparr>)"
proof -
  have h: "time ((Engine_new 0 0)\<lparr>sceneManager := Some \<lparr>activeScene = Some scene_312\<rparr>\<rparr>) = Some (Time_new 0)"
    "sceneManager ((Engine_new 0 0)\<lparr>sceneManager := Some \<lparr>activeScene = Some scene_312\<rparr>\<rparr>) =
       Some \<lparr>activeScene = Some scene_312\<rparr>"
    "activeScene \<lparr>activeScene = Some scene_312\<rparr> = Some scene_312"
    "activeCameras scene_312 \<noteq> []"
    by (simp_all add: Engine_new_def scene_312_def)
  from render_sorts_cameras_in_place [OF h, of 16] h show ?thesis
    unfolding js_sort_312 by (simp add: Engine_new_def)
qed

subsection \<open>Teardown\<close>

text \<open>
  Claim C7. A second \<open>destroy\<close> on an engine that a first \<open>destroy\<close> has torn down does
  not throw and does nothing: the state it returns is the state it was given, so no
  field is written and nothing is added to the trace, neither the shutdown event nor
  the shutdown feature hook.
\<close>

theorem destroy_twice:
  assumes "destroy s = Inr s'"
  shows "destroy s' = Inr s'"
  using assms
  by (auto simp: destroy_def Let_def emit_def split: option.splits)

theorem destroy_twice_witness:
  "destroy (Engine_new 0 0) =
     Inr ((Engine_new 0 0)
            \<lparr>canvas := None, resourceManager := None, sceneManager := None,
             featureManager_objects := [], time := None, animate_fn := False,
             trace := [Trigger ''shutdown'', Feature_shutdown, Scene_destroy, ResourceManager_gc,
                       CallComponentDestory, RemoveAllEventListeners]\<rparr>) \<and>
   destroy ((Engine_new 0 0)
            \<lparr>canvas := None, resourceManager := None, sceneManager := None,
             featureManager_objects := [], time := None, animate_fn := False,
             trace := [Trigger ''shutdown'', Feature_shutdown, Scene_destroy, ResourceManager_gc,
                       CallComponentDestory, RemoveAllEventListeners]\<rparr>) =
     Inr ((Engine_new 0 0)
            \<lparr>canvas := None, resourceManager := None, sceneManager := None,
             featureManager_objects := [], time := None, animate_fn := False,
             trace := [Trigger ''shutdown'', Feature_shutdown, Scene_destroy, ResourceManager_gc,
                       CallComponentDestory, RemoveAllEventListeners]\<rparr>)"
proof -
  have d: "destroy (Engine_new 0 0) =
     Inr ((Engine_new 0 0)
            \<lparr>canvas := None, resourceManager := None, sceneManager := None,
             featureManager_objects := [], time := None, animate_fn := False,
             trace := [Trigger ''shutdown'', Feature_shutdown, Scene_destroy, ResourceManager_gc,
                       CallComponentDestory, RemoveAllEventListeners]\<rparr>)"
    by (simp add: destroy_def pause_def cancelAnimationFrame_def clearTimeout_def emit_def
          Let_def Engine_new_def)
  from destroy_twice [OF d] d show ?thesis by simp
qed

end
